theory Spec2Isabelle
  imports Complex_Main "HOL-Library.Sublist"
begin

section \<open>Link click tracker: the store, the resolver and the handlers\<close>

text \<open>
  A shallow embedding of \<^verbatim>\<open>link_tracker.py\<close>. The program keeps a JSON document
  \<^verbatim>\<open>{"clicks": [...]}\<close> in one file, mirrors it into a CSV file, and serves four
  routes. Python values read from the JSON file are untyped, so they are modelled by a
  datatype of JSON values, and each Python operation that can raise returns a sum with
  the fault on the left.
\<close>

subsection \<open>Python values and the operations the program applies to them\<close>

text \<open>
  What \<^verbatim>\<open>json.load\<close> can return. A dict is an association list in insertion order
  (Python dicts are ordered); \<^verbatim>\<open>json.load\<close> never produces a repeated key. Strings
  are sequences of characters below 256, as the header values of a request are; the
  files' encoding is taken to write every one of them.
\<close>

datatype json =
    JNull
  | JBool bool
  | JInt int
  | JFloat real
  | JStr string
  | JArr "json list"
  | JObj "(string \<times> json) list"

datatype fault =
    KeyError string
  | TypeError
  | AttributeError
  | UnicodeDecodeError
  | ValueError
  | RecursionError
  | OSError
  | RenderError

text \<open>\<^verbatim>\<open>v[key]\<close> with a string key: only a dict accepts it.\<close>

fun py_getitem :: "json \<Rightarrow> string \<Rightarrow> fault + json" where
  "py_getitem (JObj kvs) k = (case map_of kvs k of None \<Rightarrow> Inl (KeyError k) | Some v \<Rightarrow> Inr v)"
| "py_getitem _ k = Inl TypeError"

text \<open>\<^verbatim>\<open>v.get(key, default)\<close>: a dict method; other values have no such attribute.\<close>

fun py_get :: "json \<Rightarrow> string \<Rightarrow> json \<Rightarrow> fault + json" where
  "py_get (JObj kvs) k d = (case map_of kvs k of None \<Rightarrow> Inr d | Some v \<Rightarrow> Inr v)"
| "py_get _ k d = Inl AttributeError"

text \<open>
  \<^verbatim>\<open>for x in v\<close>: a list yields its elements, a dict its keys, a string its
  characters as one-character strings; nothing else is iterable.
\<close>

fun py_iter :: "json \<Rightarrow> fault + json list" where
  "py_iter (JArr xs) = Inr xs"
| "py_iter (JObj kvs) = Inr (map (\<lambda>kv. JStr (fst kv)) kvs)"
| "py_iter (JStr s) = Inr (map (\<lambda>c. JStr [c]) s)"
| "py_iter _ = Inl TypeError"

text \<open>\<^verbatim>\<open>len(v)\<close>.\<close>

fun py_len :: "json \<Rightarrow> fault + nat" where
  "py_len (JArr xs) = Inr (length xs)"
| "py_len (JObj kvs) = Inr (length kvs)"
| "py_len (JStr s) = Inr (length s)"
| "py_len _ = Inl TypeError"

text \<open>\<^verbatim>\<open>v.append(x)\<close>: a list method; other values have no such attribute.\<close>

fun py_append :: "json \<Rightarrow> json \<Rightarrow> fault + json" where
  "py_append (JArr xs) x = Inr (JArr (xs @ [x]))"
| "py_append _ x = Inl AttributeError"

text \<open>
  The dict after the object bound to key \<open>k\<close> was mutated in place into \<open>v\<close>: the
  binding keeps its position.
\<close>

fun dict_store :: "(string \<times> json) list \<Rightarrow> string \<Rightarrow> json \<Rightarrow> (string \<times> json) list" where
  "dict_store [] k v = []"
| "dict_store (kv # kvs) k v = (if fst kv = k then (k, v) # kvs else kv # dict_store kvs k v)"

subsection \<open>Configuration and the files\<close>

definition TARGET_URL :: string where
  "TARGET_URL = ''https://developer.huaweicloud.com/intl/en-us/activity/c64bd713260a42e7872e4138a2aef2db''"

definition DATA_FILE :: string where
  "DATA_FILE = ''click_data.json''"

definition CSV_FILE :: string where
  "CSV_FILE = ''click_data.csv''"

text \<open>
  The state of the JSON file as \<^verbatim>\<open>load_data\<close> meets it: the path does not exist;
  it exists and opening or reading it raises \<^verbatim>\<open>IOError\<close>; its bytes are not text in
  the encoding of \<^verbatim>\<open>open(DATA_FILE, 'r')\<close> (reading raises
  \<^verbatim>\<open>UnicodeDecodeError\<close>); its text is not JSON (\<^verbatim>\<open>json.load\<close> raises
  \<^verbatim>\<open>JSONDecodeError\<close>); its text holds an integer literal of more digits than
  \<^verbatim>\<open>int\<close> converts (\<^verbatim>\<open>json.load\<close> raises a plain \<^verbatim>\<open>ValueError\<close>); its text nests
  lists or dicts deeper than the interpreter's recursion limit allows (\<^verbatim>\<open>json.load\<close>
  raises \<^verbatim>\<open>RecursionError\<close>); or its text is a JSON document within those limits,
  which \<^verbatim>\<open>json.load\<close> returns as the value given and \<^verbatim>\<open>json.dump\<close> can write
  back.
\<close>

datatype data_file =
    NoFile
  | IOFailure
  | BadEncoding
  | BadJson
  | HugeInteger
  | TooDeep
  | Doc json

text \<open>
  The CSV file is the list of rows handed to \<^verbatim>\<open>writer.writerow\<close>, each row the
  list of values given; the quoting done by the \<^verbatim>\<open>csv\<close> module is not modelled.
\<close>

type_synonym csv_row = "json list"

text \<open>
  The two files, and for each whether \<^verbatim>\<open>open(path, 'w')\<close> succeeds on it (it raises
  \<^verbatim>\<open>OSError\<close> on a directory, on a file without write permission, in a directory that
  cannot be written).
\<close>

record files =
  data_file :: data_file
  csv_file :: "csv_row list option"
  data_writable :: bool
  csv_writable :: bool

definition empty_log :: json where
  "empty_log = JObj [(''clicks'', JArr [])]"

text \<open>
  \<^verbatim>\<open>load_data\<close>: the \<^verbatim>\<open>except\<close> clause names \<^verbatim>\<open>json.JSONDecodeError\<close> and
  \<^verbatim>\<open>IOError\<close>. \<^verbatim>\<open>UnicodeDecodeError\<close> and the \<^verbatim>\<open>ValueError\<close> of an oversized
  integer are \<^verbatim>\<open>ValueError\<close>s that are neither, and \<^verbatim>\<open>RecursionError\<close> is a
  \<^verbatim>\<open>RuntimeError\<close>, so these leave the function.
\<close>

definition load_data :: "files \<Rightarrow> fault + json" where
  "load_data fs =
     (case data_file fs of
        NoFile \<Rightarrow> Inr empty_log
      | IOFailure \<Rightarrow> Inr empty_log
      | BadJson \<Rightarrow> Inr empty_log
      | BadEncoding \<Rightarrow> Inl UnicodeDecodeError
      | HugeInteger \<Rightarrow> Inl ValueError
      | TooDeep \<Rightarrow> Inl RecursionError
      | Doc j \<Rightarrow> Inr j)"

definition csv_header :: csv_row where
  "csv_header = [JStr ''IP Address'', JStr ''Timestamp'', JStr ''User Agent'']"

text \<open>The row written for one click: \<^verbatim>\<open>[click['ip'], click['timestamp'], click.get('user_agent', 'N/A')]\<close>.\<close>

definition click_row :: "json \<Rightarrow> fault + csv_row" where
  "click_row click =
     (case py_getitem click ''ip'' of
        Inl e \<Rightarrow> Inl e
      | Inr ip \<Rightarrow>
          (case py_getitem click ''timestamp'' of
             Inl e \<Rightarrow> Inl e
           | Inr ts \<Rightarrow>
               (case py_get click ''user_agent'' (JStr ''N/A'') of
                  Inl e \<Rightarrow> Inl e
                | Inr ua \<Rightarrow> Inr [ip, ts, ua])))"

text \<open>
  The loop over the clicks, given the rows written so far: it stops at the first click
  that raises, and the rows written before it stay in the file.
\<close>

fun write_rows :: "json list \<Rightarrow> csv_row list \<Rightarrow> fault option \<times> csv_row list" where
  "write_rows [] rows = (None, rows)"
| "write_rows (click # clicks) rows =
     (case click_row click of
        Inl e \<Rightarrow> (Some e, rows)
      | Inr r \<Rightarrow> write_rows clicks (rows @ [r]))"

text \<open>
  \<^verbatim>\<open>save_data\<close>: the JSON file is opened for writing and replaced by the dump of
  \<open>data\<close> (read back by \<^verbatim>\<open>json.load\<close> as \<open>data\<close>), then the CSV file is opened for
  writing, the header written, and one row per click. An \<^verbatim>\<open>open\<close> that fails raises
  before the file is touched; a fault on the way leaves what was written. A failure
  while writing an open file (a full disk) is outside the model.
\<close>

definition save_data :: "files \<Rightarrow> json \<Rightarrow> fault option \<times> files" where
  "save_data fs data =
     (if \<not> data_writable fs then (Some OSError, fs)
      else
        let fs1 = fs\<lparr>data_file := Doc data\<rparr>
        in if \<not> csv_writable fs then (Some OSError, fs1)
           else
             let fs2 = fs1\<lparr>csv_file := Some [csv_header]\<rparr>
             in case py_getitem data ''clicks'' of
                  Inl e \<Rightarrow> (Some e, fs2)
                | Inr cl \<Rightarrow>
                    (case py_iter cl of
                       Inl e \<Rightarrow> (Some e, fs2)
                     | Inr clicks \<Rightarrow>
                         (case write_rows clicks [csv_header] of
                            (r, rows) \<Rightarrow> (r, fs1\<lparr>csv_file := Some rows\<rparr>))))"

subsection \<open>The request and the host clock\<close>

text \<open>
  A naive \<^verbatim>\<open>datetime\<close> (no zone attached) and its \<^verbatim>\<open>isoformat()\<close>:
  \<^verbatim>\<open>YYYY-MM-DDTHH:MM:SS\<close>, followed by \<^verbatim>\<open>.ffffff\<close> when the microsecond is not 0.
\<close>

record datetime =
  year :: nat
  month :: nat
  day :: nat
  hour :: nat
  minute :: nat
  second :: nat
  microsecond :: nat

definition digit_char :: "nat \<Rightarrow> char" where
  "digit_char d = ''0123456789'' ! d"

fun show_nat :: "nat \<Rightarrow> string" where
  "show_nat n =
     (if n < 10 then [digit_char n]
      else show_nat (n div 10) @ [digit_char (n mod 10)])"

definition zfill :: "nat \<Rightarrow> nat \<Rightarrow> string" where
  "zfill w n = replicate (w - length (show_nat n)) (CHR ''0'') @ show_nat n"

definition isoformat :: "datetime \<Rightarrow> string" where
  "isoformat d =
     zfill 4 (year d) @ ''-'' @ zfill 2 (month d) @ ''-'' @ zfill 2 (day d) @ ''T'' @
     zfill 2 (hour d) @ '':'' @ zfill 2 (minute d) @ '':'' @ zfill 2 (second d) @
     (if microsecond d = 0 then [] else ''.'' @ zfill 6 (microsecond d))"

text \<open>
  The host clock at the moment of a call, read in the host's own time zone and in UTC.
  \<^verbatim>\<open>datetime.now()\<close> with no argument returns the local reading.
\<close>

record clock =
  local_time :: datetime
  utc_time :: datetime

definition datetime_now :: "clock \<Rightarrow> datetime" where
  "datetime_now c = local_time c"

text \<open>
  What a handler sees of one call: the request headers (looked up by the names the
  source uses), the peer address of the connection (\<^verbatim>\<open>request.remote_addr\<close>, which
  may be \<^verbatim>\<open>None\<close>), and the host clock when the call runs.
\<close>

record request =
  headers :: "string \<rightharpoonup> string"
  remote_addr :: "string option"
  host_clock :: clock

text \<open>
  \<^verbatim>\<open>str.strip()\<close> removes the characters for which \<^verbatim>\<open>str.isspace\<close> holds; header
  values are Latin-1 text, where these are the code points below.
\<close>

definition isspace :: "char \<Rightarrow> bool" where
  "isspace c =
     (let n = (of_char c :: nat)
      in (9 \<le> n \<and> n \<le> 13) \<or> (28 \<le> n \<and> n \<le> 32) \<or> n = 133 \<or> n = 160)"

definition strip :: "string \<Rightarrow> string" where
  "strip s = rev (dropWhile isspace (rev (dropWhile isspace s)))"

text \<open>
  \<^verbatim>\<open>s.split(sep)\<close> for a one-character separator: the pieces between the
  separators, in order; there is always at least one piece.
\<close>

fun split :: "char \<Rightarrow> string \<Rightarrow> string list" where
  "split sep [] = [[]]"
| "split sep (c # cs) =
     (if c = sep then [] # split sep cs
      else (case split sep cs of
              [] \<Rightarrow> [[c]]
            | w # ws \<Rightarrow> (c # w) # ws))"

text \<open>Python's truth value of \<^verbatim>\<open>headers.get(name)\<close>: \<^verbatim>\<open>None\<close> and \<^verbatim>\<open>''\<close> are false.\<close>

definition truthy :: "string option \<Rightarrow> bool" where
  "truthy v = (case v of None \<Rightarrow> False | Some s \<Rightarrow> s \<noteq> [])"

definition get_client_ip :: "request \<Rightarrow> string option" where
  "get_client_ip rq =
     (if truthy (headers rq ''X-Forwarded-For'')
      then Some (strip (split (CHR '','') (the (headers rq ''X-Forwarded-For'')) ! 0))
      else if truthy (headers rq ''X-Real-IP'')
      then headers rq ''X-Real-IP''
      else remote_addr rq)"

text \<open>A Python \<^verbatim>\<open>str\<close> or \<^verbatim>\<open>None\<close> as a value stored in the log.\<close>

definition py_str :: "string option \<Rightarrow> json" where
  "py_str v = (case v of None \<Rightarrow> JNull | Some s \<Rightarrow> JStr s)"

subsection \<open>The handlers\<close>

text \<open>
  One row of the table of the statistics page: \<^verbatim>\<open>loop.index\<close>, \<^verbatim>\<open>click.ip\<close>, the
  text of the first visit, \<^verbatim>\<open>click.user_agent\<close>. An undefined template value is
  \<open>None\<close>; it prints as the empty string.
\<close>

type_synonym table_row = "nat \<times> json option \<times> string \<times> json option"

text \<open>
  A response: a redirect with its target and status code; the value handed to
  \<^verbatim>\<open>jsonify\<close>; the statistics page, given by the variables handed to
  \<^verbatim>\<open>render_template_string\<close> and the rows of its table (\<open>None\<close> when the page shows
  the message for no visitors instead); the home page, given by its variables. The
  text of the pages around these values is not modelled.
\<close>

datatype response =
    Redirect string nat
  | Json json
  | StatsHtml "(string \<times> json) list" "table_row list option"
  | HomeHtml "(string \<times> json) list"

text \<open>\<^verbatim>\<open>[click['ip'] for click in clicks]\<close>: stops at the first click that raises.\<close>

fun collect_ips :: "json list \<Rightarrow> fault + json list" where
  "collect_ips [] = Inr []"
| "collect_ips (click # clicks) =
     (case py_getitem click ''ip'' of
        Inl e \<Rightarrow> Inl e
      | Inr ip \<Rightarrow>
          (case collect_ips clicks of
             Inl e \<Rightarrow> Inl e
           | Inr ips \<Rightarrow> Inr (ip # ips)))"

definition click_record :: "request \<Rightarrow> json" where
  "click_record rq =
     JObj [(''ip'', py_str (get_client_ip rq)),
           (''timestamp'', JStr (isoformat (datetime_now (host_clock rq)))),
           (''user_agent'', JStr (case headers rq ''User-Agent'' of None \<Rightarrow> ''Unknown'' | Some ua \<Rightarrow> ua))]"

text \<open>\<open>data\<close> after the object at \<^verbatim>\<open>data[k]\<close> was mutated in place into \<open>v\<close>.\<close>

fun mutated :: "json \<Rightarrow> string \<Rightarrow> json \<Rightarrow> json" where
  "mutated (JObj kvs) k v = JObj (dict_store kvs k v)"
| "mutated d k v = d"

text \<open>
  \<^verbatim>\<open>track_click\<close>: the outcome of the call (a fault that leaves the handler, or the
  response) and the files afterwards. The two \<^verbatim>\<open>print\<close> calls are not modelled.
\<close>

definition track_click :: "files \<Rightarrow> request \<Rightarrow> (fault + response) \<times> files" where
  "track_click fs rq =
     (case load_data fs of
        Inl e \<Rightarrow> (Inl e, fs)
      | Inr data \<Rightarrow>
     (case py_getitem data ''clicks'' of
        Inl e \<Rightarrow> (Inl e, fs)
      | Inr cl \<Rightarrow>
     (case py_iter cl of
        Inl e \<Rightarrow> (Inl e, fs)
      | Inr clicks \<Rightarrow>
     (case collect_ips clicks of
        Inl e \<Rightarrow> (Inl e, fs)
      | Inr existing_ips \<Rightarrow>
          if py_str (get_client_ip rq) \<notin> set existing_ips
          then
            (case py_append cl (click_record rq) of
               Inl e \<Rightarrow> (Inl e, fs)
             | Inr cl' \<Rightarrow>
                 (case save_data fs (mutated data ''clicks'' cl') of
                    (Some e, fs') \<Rightarrow> (Inl e, fs')
                  | (None, fs') \<Rightarrow> (Inr (Redirect TARGET_URL 302), fs')))
          else (Inr (Redirect TARGET_URL 302), fs)))))"

text \<open>
  \<^verbatim>\<open>{{ v.name }}\<close> in a template, for a name that is no attribute of Python's own
  types: the item \<^verbatim>\<open>v[name]\<close> of a dict that has it, undefined otherwise.
\<close>

definition jinja_attr :: "json \<Rightarrow> string \<Rightarrow> json option" where
  "jinja_attr v name = (case v of JObj kvs \<Rightarrow> map_of kvs name | _ \<Rightarrow> None)"

text \<open>
  \<^verbatim>\<open>{{ click.timestamp[:19].replace('T', ' ') }}\<close>: on a string, its first 19
  characters with each \<^verbatim>\<open>T\<close> replaced by a space. On anything else the rendering
  raises: an undefined value cannot be sliced, a number, a boolean, \<^verbatim>\<open>None\<close> or a dict
  cannot either, and a list has no \<^verbatim>\<open>replace\<close> (\<^verbatim>\<open>UndefinedError\<close>, \<^verbatim>\<open>TypeError\<close> or
  \<^verbatim>\<open>KeyError\<close>, by the value and the interpreter; one fault stands for them).
\<close>

definition first_visit :: "json \<Rightarrow> fault + string" where
  "first_visit click =
     (case jinja_attr click ''timestamp'' of
        Some (JStr s) \<Rightarrow> Inr (map (\<lambda>c. if c = CHR ''T'' then CHR '' '' else c) (take 19 s))
      | _ \<Rightarrow> Inl RenderError)"

text \<open>The loop \<^verbatim>\<open>{% for click in clicks %}\<close>, from \<^verbatim>\<open>loop.index\<close> \<open>i\<close> on.\<close>

fun render_rows :: "nat \<Rightarrow> json list \<Rightarrow> fault + table_row list" where
  "render_rows i [] = Inr []"
| "render_rows i (click # clicks) =
     (case first_visit click of
        Inl e \<Rightarrow> Inl e
      | Inr t \<Rightarrow>
          (case render_rows (Suc i) clicks of
             Inl e \<Rightarrow> Inl e
           | Inr rows \<Rightarrow>
               Inr ((i, jinja_attr click ''ip'', t, jinja_attr click ''user_agent'') # rows)))"

text \<open>
  \<^verbatim>\<open>show_stats\<close>: the template is rendered inside the handler, so a fault of the
  rendering is a fault of the handler. \<^verbatim>\<open>{% if clicks %}\<close> is false on an empty
  list, string or dict.
\<close>

definition show_stats :: "files \<Rightarrow> (fault + response) \<times> files" where
  "show_stats fs =
     (case load_data fs of
        Inl e \<Rightarrow> (Inl e, fs)
      | Inr data \<Rightarrow>
     (case py_getitem data ''clicks'' of
        Inl e \<Rightarrow> (Inl e, fs)
      | Inr cl \<Rightarrow>
     (case py_len cl of
        Inl e \<Rightarrow> (Inl e, fs)
      | Inr total_unique \<Rightarrow>
     (case py_iter cl of
        Inl e \<Rightarrow> (Inl e, fs)
      | Inr clicks \<Rightarrow>
          (let variables =
                 [(''total_unique'', JInt (int total_unique)),
                  (''clicks'', cl),
                  (''target_url'', JStr TARGET_URL),
                  (''data_file'', JStr DATA_FILE),
                  (''csv_file'', JStr CSV_FILE)]
           in if clicks = [] then (Inr (StatsHtml variables None), fs)
              else
                (case render_rows 1 clicks of
                   Inl e \<Rightarrow> (Inl e, fs)
                 | Inr rows \<Rightarrow> (Inr (StatsHtml variables (Some rows)), fs)))))))"

definition api_stats :: "files \<Rightarrow> (fault + response) \<times> files" where
  "api_stats fs =
     (case load_data fs of
        Inl e \<Rightarrow> (Inl e, fs)
      | Inr data \<Rightarrow>
     (case py_getitem data ''clicks'' of
        Inl e \<Rightarrow> (Inl e, fs)
      | Inr cl \<Rightarrow>
     (case py_len cl of
        Inl e \<Rightarrow> (Inl e, fs)
      | Inr n \<Rightarrow>
          (Inr (Json (JObj
                  [(''total_unique_visitors'', JInt (int n)),
                   (''clicks'', cl),
                   (''target_url'', JStr TARGET_URL)])), fs))))"

definition home :: "files \<Rightarrow> (fault + response) \<times> files" where
  "home fs = (Inr (HomeHtml [(''target_url'', JStr TARGET_URL)]), fs)"

text \<open>Track calls one after the other, each on the files the one before left.\<close>

fun track_all :: "files \<Rightarrow> request list \<Rightarrow> (fault + response) list \<times> files" where
  "track_all fs [] = ([], fs)"
| "track_all fs (rq # rqs) =
     (case track_click fs rq of
        (out, fs') \<Rightarrow> (case track_all fs' rqs of (outs, fs'') \<Rightarrow> (out # outs, fs'')))"

subsection \<open>What the store holds\<close>

text \<open>
  The click log a handler finds in the store: the list under \<^verbatim>\<open>'clicks'\<close> of the
  loaded document, when loading succeeds and the document has that shape.
\<close>

definition stored_clicks :: "files \<Rightarrow> json list option" where
  "stored_clicks fs =
     (case load_data fs of
        Inr (JObj kvs) \<Rightarrow>
          (case map_of kvs ''clicks'' of
             Some (JArr clicks) \<Rightarrow> Some clicks
           | _ \<Rightarrow> None)
      | _ \<Rightarrow> None)"

text \<open>The store before the first save: neither file exists, both can be written.\<close>

definition empty_store :: files where
  "empty_store =
     \<lparr>data_file = NoFile, csv_file = None, data_writable = True, csv_writable = True\<rparr>"



text \<open>The document is a dict whose \<^verbatim>\<open>'clicks'\<close> is a list.\<close>

definition has_clicks_list :: "json \<Rightarrow> bool" where
  "has_clicks_list j =
     (case j of
        JObj kvs \<Rightarrow> (case map_of kvs ''clicks'' of Some (JArr clicks) \<Rightarrow> True | _ \<Rightarrow> False)
      | _ \<Rightarrow> False)"

text \<open>The document is a dict whose \<^verbatim>\<open>'clicks'\<close> is a string or a dict: \<^verbatim>\<open>len\<close> accepts it.\<close>

definition clicks_sized :: "json \<Rightarrow> bool" where
  "clicks_sized j =
     (case j of
        JObj kvs \<Rightarrow>
          (case map_of kvs ''clicks'' of
             Some (JStr s) \<Rightarrow> True
           | Some (JObj ws) \<Rightarrow> True
           | _ \<Rightarrow> False)
      | _ \<Rightarrow> False)"

text \<open>
  The resolver as the specification words it, on the presence of each header alone;
  compared with \<open>get_client_ip\<close> below.
\<close>

definition spec_resolve :: "request \<Rightarrow> string option" where
  "spec_resolve rq =
     (case headers rq ''X-Forwarded-For'' of
        Some v \<Rightarrow> Some (strip (split (CHR '','') v ! 0))
      | None \<Rightarrow>
          (case headers rq ''X-Real-IP'' of
             Some w \<Rightarrow> Some w
           | None \<Rightarrow> remote_addr rq))"

text \<open>The CSV row of the record of a call, and the files that hold the records of \<open>qs\<close>.\<close>

definition record_row :: "request \<Rightarrow> csv_row" where
  "record_row rq =
     [py_str (get_client_ip rq),
      JStr (isoformat (datetime_now (host_clock rq))),
      JStr (case headers rq ''User-Agent'' of None \<Rightarrow> ''Unknown'' | Some ua \<Rightarrow> ua)]"

definition log_files :: "request list \<Rightarrow> files" where
  "log_files qs =
     \<lparr>data_file = Doc (JObj [(''clicks'', JArr (map click_record qs))]),
      csv_file = Some (csv_header # map record_row qs),
      data_writable = True, csv_writable = True\<rparr>"

text \<open>The calls whose address neither \<open>seen\<close> holds nor an earlier call resolved to.\<close>

fun first_calls :: "string option list \<Rightarrow> request list \<Rightarrow> request list" where
  "first_calls seen [] = []"
| "first_calls seen (rq # rqs) =
     (if get_client_ip rq \<in> set seen then first_calls seen rqs
      else rq # first_calls (seen @ [get_client_ip rq]) rqs)"

subsection \<open>Example calls and stores\<close>

text \<open>A host two hours ahead of UTC, at two moments.\<close>

definition noon :: clock where
  "noon =
     \<lparr>local_time = \<lparr>year = 2024, month = 1, day = 2, hour = 12, minute = 0, second = 5,
                     microsecond = 0\<rparr>,
      utc_time = \<lparr>year = 2024, month = 1, day = 2, hour = 10, minute = 0, second = 5,
                   microsecond = 0\<rparr>\<rparr>"

definition half_past :: clock where
  "half_past =
     \<lparr>local_time = \<lparr>year = 2024, month = 1, day = 2, hour = 12, minute = 30, second = 0,
                     microsecond = 250\<rparr>,
      utc_time = \<lparr>year = 2024, month = 1, day = 2, hour = 10, minute = 30, second = 0,
                   microsecond = 250\<rparr>\<rparr>"

definition call_curl :: request where
  "call_curl =
     \<lparr>headers = [''User-Agent'' \<mapsto> ''curl/8.0''], remote_addr = Some ''10.0.0.1'',
      host_clock = noon\<rparr>"

definition call_curl_again :: request where
  "call_curl_again =
     \<lparr>headers = [''User-Agent'' \<mapsto> ''Mozilla/5.0''], remote_addr = Some ''10.0.0.1'',
      host_clock = half_past\<rparr>"

definition call_forwarded :: request where
  "call_forwarded =
     \<lparr>headers = [''X-Forwarded-For'' \<mapsto> ''1.2.3.4, 5.6.7.8'', ''X-Real-IP'' \<mapsto> ''9.9.9.9''],
      remote_addr = Some ''10.0.0.1'', host_clock = noon\<rparr>"

definition call_real_ip :: request where
  "call_real_ip =
     \<lparr>headers = [''X-Real-IP'' \<mapsto> ''9.9.9.9''], remote_addr = Some ''10.0.0.1'',
      host_clock = half_past\<rparr>"

definition call_empty_forwarded :: request where
  "call_empty_forwarded =
     \<lparr>headers = [''X-Forwarded-For'' \<mapsto> [], ''X-Real-IP'' \<mapsto> ''9.9.9.9''],
      remote_addr = Some ''10.0.0.1'', host_clock = noon\<rparr>"

definition full_record :: json where
  "full_record =
     JObj [(''ip'', JStr ''10.0.0.1''), (''timestamp'', JStr ''2024-01-02T12:00:05''),
           (''user_agent'', JStr ''curl/8.0'')]"

definition partial_record :: json where
  "partial_record =
     JObj [(''ip'', JStr ''1.2.3.4''), (''timestamp'', JStr ''2024-01-02T12:00:05'')]"

definition text_clicks_store :: files where
  "text_clicks_store =
     \<lparr>data_file = Doc (JObj [(''clicks'', JStr ''abc'')]), csv_file = None,
      data_writable = True, csv_writable = True\<rparr>"

definition empty_text_store :: files where
  "empty_text_store =
     \<lparr>data_file = Doc (JObj [(''clicks'', JStr [])]), csv_file = None,
      data_writable = True, csv_writable = True\<rparr>"

definition array_store :: files where
  "array_store =
     \<lparr>data_file = Doc (JArr []), csv_file = None, data_writable = True, csv_writable = True\<rparr>"

definition undecodable_store :: files where
  "undecodable_store =
     \<lparr>data_file = BadEncoding, csv_file = None, data_writable = True, csv_writable = True\<rparr>"


section \<open>Properties\<close>

subsection \<open>Splitting and stripping\<close>

lemma split_not_Nil: "split sep s \<noteq> []"
  by (induction s) (auto split: list.splits)

lemma split_first: "split sep s ! 0 = takeWhile (\<lambda>c. c \<noteq> sep) s"
  by (induction s) (auto split: list.splits simp: split_not_Nil)

text \<open>Stripping removes whitespace from both ends and nothing else.\<close>

lemma strip_decompose:
  "\<exists>pre post. s = pre @ strip s @ post \<and> list_all isspace pre \<and> list_all isspace post"
proof -
  let ?t = "dropWhile isspace s"
  let ?u = "rev ?t"
  have a: "s = takeWhile isspace s @ ?t" by simp
  have "?t = rev ?u" by simp
  also have "\<dots> = rev (takeWhile isspace ?u @ dropWhile isspace ?u)"
    by (simp only: takeWhile_dropWhile_id)
  also have "\<dots> = strip s @ rev (takeWhile isspace ?u)"
    by (simp only: strip_def rev_append)
  finally have c: "?t = strip s @ rev (takeWhile isspace ?u)" .
  have "s = takeWhile isspace s @ strip s @ rev (takeWhile isspace ?u)"
    using a c by metis
  moreover have "list_all isspace (takeWhile isspace s)"
    by (simp add: list_all_iff) (meson set_takeWhileD)
  moreover have "list_all isspace (rev (takeWhile isspace ?u))"
    by (simp add: list_all_iff) (meson set_takeWhileD)
  ultimately show ?thesis by blast
qed

lemma last_dropWhile: "dropWhile P xs \<noteq> [] \<Longrightarrow> last (dropWhile P xs) = last xs"
  by (induction xs) (auto split: if_splits)

lemma strip_ends:
  assumes "strip s \<noteq> []"
  shows "\<not> isspace (hd (strip s)) \<and> \<not> isspace (last (strip s))"
proof -
  let ?t = "dropWhile isspace s"
  let ?d = "dropWhile isspace (rev ?t)"
  from assms have d: "?d \<noteq> []" by (simp add: strip_def)
  have t: "?t \<noteq> []"
  proof
    assume "?t = []"
    then have "?d = []" by (simp only: rev.simps dropWhile.simps)
    with d show False by (simp only:)
  qed
  have "last (strip s) = hd ?d" using d by (simp add: strip_def last_rev)
  moreover have "\<not> isspace (hd ?d)" using d by (rule hd_dropWhile)
  moreover have "hd (strip s) = last ?d" using d by (simp add: strip_def hd_rev)
  moreover have "last ?d = last (rev ?t)" using d by (rule last_dropWhile)
  moreover have "last (rev ?t) = hd ?t" using t by (simp add: last_rev)
  moreover have "\<not> isspace (hd ?t)" using t by (rule hd_dropWhile)
  ultimately show ?thesis by simp
qed

subsection \<open>Loading, saving and one track call\<close>

lemma map_of_dict_store:
  "map_of kvs k = Some v0 \<Longrightarrow> map_of (dict_store kvs k v) k = Some v"
  by (induction kvs) (auto split: if_splits)

lemma stored_clicksD:
  assumes "stored_clicks fs = Some cs"
  obtains kvs where "load_data fs = Inr (JObj kvs)" "map_of kvs ''clicks'' = Some (JArr cs)"
  using assms unfolding stored_clicks_def
  by (auto split: sum.splits json.splits option.splits)

lemma save_data_unwritable: "\<not> data_writable fs \<Longrightarrow> save_data fs d = (Some OSError, fs)"
  by (simp add: save_data_def)

lemma data_file_save_data: "data_writable fs \<Longrightarrow> data_file (snd (save_data fs d)) = Doc d"
  by (simp add: save_data_def Let_def split: sum.splits prod.splits)

lemma load_data_Doc: "data_file fs = Doc d \<Longrightarrow> load_data fs = Inr d"
  by (simp add: load_data_def)

text \<open>What a track call does to the files, in terms of the log it found.\<close>

lemma track_click_files:
  assumes "stored_clicks fs = Some cs"
  shows "snd (track_click fs rq) = fs \<or>
         stored_clicks (snd (track_click fs rq)) = Some (cs @ [click_record rq])"
proof -
  from assms obtain kvs where ld: "load_data fs = Inr (JObj kvs)"
    and cl: "map_of kvs ''clicks'' = Some (JArr cs)"
    by (rule stored_clicksD)
  let ?d = "JObj (dict_store kvs ''clicks'' (JArr (cs @ [click_record rq])))"
  show ?thesis
  proof (cases "data_writable fs")
    case True
    have st: "stored_clicks (snd (save_data fs ?d)) = Some (cs @ [click_record rq])"
      using cl
      by (simp add: stored_clicks_def load_data_Doc[OF data_file_save_data[OF True]]
            map_of_dict_store)
    show ?thesis
      using st by (auto simp: track_click_def ld cl split: sum.splits prod.splits option.splits)
  next
    case False
    then show ?thesis
      by (auto simp: track_click_def ld cl save_data_unwritable split: sum.splits)
  qed
qed

text \<open>Without a click log in the store, a track call faults before it writes.\<close>

lemma track_click_no_log:
  assumes "stored_clicks fs = None"
  shows "\<exists>e. track_click fs rq = (Inl e, fs)"
proof (cases "load_data fs")
  case (Inl e)
  then show ?thesis by (simp add: track_click_def)
next
  case (Inr d)
  show ?thesis
  proof (cases "py_getitem d ''clicks''")
    case (Inl e)
    then show ?thesis using Inr by (simp add: track_click_def)
  next
    case cl: (Inr cl)
    then obtain kvs where d: "d = JObj kvs" by (cases d) auto
    with cl have m: "map_of kvs ''clicks'' = Some cl" by (auto split: option.splits)
    with assms Inr d have nl: "\<And>xs. cl \<noteq> JArr xs"
      by (auto simp: stored_clicks_def)
    show ?thesis
    proof (cases cl)
      case (JStr s)
      then show ?thesis using Inr cl
        by (cases s) (simp_all add: track_click_def)
    next
      case (JObj ws)
      then show ?thesis using Inr cl
        by (cases ws) (simp_all add: track_click_def)
    qed (use Inr cl nl in \<open>simp_all add: track_click_def\<close>)
  qed
qed



lemma write_rows_rows:
  "write_rows cs rows = (None, rows') \<Longrightarrow>
     \<exists>rs. rows' = rows @ rs \<and> list_all2 (\<lambda>c r. click_row c = Inr r) cs rs"
proof (induction cs arbitrary: rows)
  case Nil
  then show ?case by simp
next
  case (Cons c cs)
  from Cons.prems obtain r where r: "click_row c = Inr r"
    and w: "write_rows cs (rows @ [r]) = (None, rows')"
    by (auto split: sum.splits)
  from Cons.IH[OF w] obtain rs where "rows' = (rows @ [r]) @ rs"
    and "list_all2 (\<lambda>c r. click_row c = Inr r) cs rs" by blast
  with r have "rows' = rows @ (r # rs) \<and> list_all2 (\<lambda>c r. click_row c = Inr r) (c # cs) (r # rs)"
    by simp
  then show ?case by blast
qed






lemma click_row_cells:
  assumes "click_row c = Inr r"
  shows "\<exists>ip ts. py_getitem c ''ip'' = Inr ip \<and> py_getitem c ''timestamp'' = Inr ts \<and>
           r = [ip, ts, case py_getitem c ''user_agent'' of Inl e \<Rightarrow> JStr ''N/A'' | Inr ua \<Rightarrow> ua]"
proof (cases c)
  case (JObj kvs)
  with assms show ?thesis
    by (auto simp: click_row_def split: option.splits)
qed (use assms in \<open>simp_all add: click_row_def\<close>)

subsection \<open>Sequences of track calls\<close>

lemma py_str_eq [simp]: "py_str a = py_str b \<longleftrightarrow> a = b"
  by (auto simp: py_str_def split: option.splits)

lemma click_record_ip [simp]: "py_getitem (click_record rq) ''ip'' = Inr (py_str (get_client_ip rq))"
  by (simp add: click_record_def)

lemma click_row_click_record [simp]: "click_row (click_record rq) = Inr (record_row rq)"
  by (simp add: click_row_def click_record_def record_row_def)

lemma collect_ips_records [simp]:
  "collect_ips (map click_record qs) = Inr (map (\<lambda>q. py_str (get_client_ip q)) qs)"
  by (induction qs) simp_all

lemma write_rows_records [simp]:
  "write_rows (map click_record qs) rows = (None, rows @ map record_row qs)"
  by (induction qs arbitrary: rows) simp_all

lemma track_click_log_files:
  "track_click (log_files qs) rq =
     (Inr (Redirect TARGET_URL 302),
      if get_client_ip rq \<in> get_client_ip ` set qs then log_files qs else log_files (qs @ [rq]))"
proof -
  have w: "write_rows (map click_record qs @ [click_record rq]) [csv_header]
             = (None, csv_header # map record_row (qs @ [rq]))"
    using write_rows_records[of "qs @ [rq]" "[csv_header]"] by simp
  have m: "py_str (get_client_ip rq) \<in> (\<lambda>q. py_str (get_client_ip q)) ` set qs
             \<longleftrightarrow> get_client_ip rq \<in> get_client_ip ` set qs"
    by auto
  show ?thesis
    by (simp add: track_click_def log_files_def load_data_def save_data_def w m)
qed

lemma track_click_empty_store:
  "track_click empty_store rq = (Inr (Redirect TARGET_URL 302), log_files [rq])"
  by (simp add: track_click_def empty_store_def log_files_def load_data_def empty_log_def
        save_data_def)

lemma track_all_log_files:
  "track_all (log_files qs) rqs =
     (replicate (length rqs) (Inr (Redirect TARGET_URL 302)),
      log_files (qs @ first_calls (map get_client_ip qs) rqs))"
proof (induction rqs arbitrary: qs)
  case Nil
  then show ?case by simp
next
  case (Cons rq rqs)
  show ?case
  proof (cases "get_client_ip rq \<in> get_client_ip ` set qs")
    case True
    then show ?thesis by (simp add: track_click_log_files Cons.IH)
  next
    case False
    then show ?thesis by (simp add: track_click_log_files Cons.IH)
  qed
qed

lemma first_calls_ips:
  "get_client_ip ` set (first_calls seen rqs) = get_client_ip ` set rqs - set seen"
  by (induction rqs arbitrary: seen) auto

lemma first_calls_distinct: "distinct (map get_client_ip (first_calls seen rqs))"
proof (induction rqs arbitrary: seen)
  case Nil
  then show ?case by simp
next
  case (Cons rq rqs)
  have "get_client_ip rq \<notin> get_client_ip ` set (first_calls (seen @ [get_client_ip rq]) rqs)"
    by (simp add: first_calls_ips)
  with Cons show ?case by simp
qed

lemma first_calls_first:
  "q \<in> set (first_calls seen rqs) \<Longrightarrow>
     \<exists>i<length rqs. q = rqs ! i \<and> (\<forall>j<i. get_client_ip (rqs ! j) \<noteq> get_client_ip (rqs ! i))"
proof (induction rqs arbitrary: seen)
  case Nil
  then show ?case by simp
next
  case (Cons rq rqs)
  show ?case
  proof (cases "q = rq \<and> get_client_ip rq \<notin> set seen")
    case True
    then have "q = (rq # rqs) ! 0" by simp
    then show ?thesis by (intro exI[of _ 0]) simp
  next
    case False
    let ?seen' = "if get_client_ip rq \<in> set seen then seen else seen @ [get_client_ip rq]"
    from Cons.prems False have mem: "q \<in> set (first_calls ?seen' rqs)"
      by (auto split: if_splits)
    from Cons.IH[OF mem] obtain i where i: "i < length rqs" "q = rqs ! i"
      and before: "\<forall>j<i. get_client_ip (rqs ! j) \<noteq> get_client_ip (rqs ! i)"
      by blast
    from mem have "get_client_ip q \<in> get_client_ip ` set (first_calls ?seen' rqs)" by blast
    then have "get_client_ip q \<notin> set ?seen'" by (simp add: first_calls_ips)
    moreover have "get_client_ip rq \<in> set ?seen'" by simp
    ultimately have ne: "get_client_ip rq \<noteq> get_client_ip (rqs ! i)" using i(2) by metis
    have "\<forall>j<Suc i. get_client_ip ((rq # rqs) ! j) \<noteq> get_client_ip ((rq # rqs) ! Suc i)"
    proof (intro allI impI)
      fix j assume "j < Suc i"
      then show "get_client_ip ((rq # rqs) ! j) \<noteq> get_client_ip ((rq # rqs) ! Suc i)"
        using ne before by (cases j) auto
    qed
    with i show ?thesis by (intro exI[of _ "Suc i"]) simp
  qed
qed

lemma track_all_empty_store:
  "snd (track_all empty_store rqs) =
     (if rqs = [] then empty_store else log_files (first_calls [] rqs))"
  by (cases rqs) (simp_all add: track_click_empty_store track_all_log_files)

lemma stored_clicks_log_files [simp]: "stored_clicks (log_files qs) = Some (map click_record qs)"
  by (simp add: stored_clicks_def log_files_def load_data_def)

lemma stored_clicks_empty_store [simp]: "stored_clicks empty_store = Some []"
  by (simp add: stored_clicks_def empty_store_def load_data_def empty_log_def)

lemma stored_clicks_track_all:
  "stored_clicks (snd (track_all empty_store rqs)) = Some (map click_record (first_calls [] rqs))"
  by (simp add: track_all_empty_store)

lemma collect_ips_mem:
  "collect_ips cs = Inr ips \<Longrightarrow> c \<in> set cs \<Longrightarrow> py_getitem c ''ip'' = Inr v \<Longrightarrow> v \<in> set ips"
  by (induction cs arbitrary: ips) (auto split: sum.splits)

lemma track_click_recorded:
  assumes "stored_clicks fs = Some cs"
    and "c \<in> set cs" and "py_getitem c ''ip'' = Inr (py_str (get_client_ip rq))"
  shows "snd (track_click fs rq) = fs"
proof -
  from assms(1) obtain kvs where ld: "load_data fs = Inr (JObj kvs)"
    and cl: "map_of kvs ''clicks'' = Some (JArr cs)"
    by (rule stored_clicksD)
  show ?thesis
  proof (cases "collect_ips cs")
    case (Inl e)
    then show ?thesis by (simp add: track_click_def ld cl)
  next
    case (Inr ips)
    from collect_ips_mem[OF Inr assms(2,3)] have "py_str (get_client_ip rq) \<in> set ips" .
    with Inr show ?thesis by (simp add: track_click_def ld cl)
  qed
qed

subsection \<open>The example calls, evaluated\<close>

lemma replicate_numeral: "replicate (numeral k) x = x # replicate (pred_numeral k) x"
  by (simp add: numeral_eq_Suc)

lemma example_times:
  "isoformat (local_time noon) = ''2024-01-02T12:00:05''"
  "isoformat (utc_time noon) = ''2024-01-02T10:00:05''"
  "isoformat (local_time half_past) = ''2024-01-02T12:30:00.000250''"
  by (simp_all add: isoformat_def zfill_def digit_char_def noon_def half_past_def
        replicate_numeral)

lemma example_ips:
  "get_client_ip call_curl = Some ''10.0.0.1''"
  "get_client_ip call_curl_again = Some ''10.0.0.1''"
  "get_client_ip call_forwarded = Some ''1.2.3.4''"
  "get_client_ip call_real_ip = Some ''9.9.9.9''"
  "get_client_ip call_empty_forwarded = Some ''9.9.9.9''"
  by (simp_all add: get_client_ip_def truthy_def strip_def isspace_def split_first
        call_curl_def call_curl_again_def call_forwarded_def call_real_ip_def
        call_empty_forwarded_def)

lemma example_fields:
  "headers call_curl ''User-Agent'' = Some ''curl/8.0''"
  "headers call_forwarded ''User-Agent'' = None"
  "host_clock call_curl = noon"
  "host_clock call_forwarded = noon"
  "headers call_real_ip ''User-Agent'' = None"
  "host_clock call_real_ip = half_past"
  by (simp_all add: call_curl_def call_forwarded_def call_real_ip_def)

lemma example_records:
  "click_record call_curl = full_record"
  "click_record call_forwarded =
     JObj [(''ip'', JStr ''1.2.3.4''), (''timestamp'', JStr ''2024-01-02T12:00:05''),
           (''user_agent'', JStr ''Unknown'')]"
  "click_record call_real_ip =
     JObj [(''ip'', JStr ''9.9.9.9''), (''timestamp'', JStr ''2024-01-02T12:30:00.000250''),
           (''user_agent'', JStr ''Unknown'')]"
  by (simp_all add: click_record_def example_ips example_times example_fields py_str_def
        datetime_now_def full_record_def)

lemma spec_resolve_empty: "spec_resolve call_empty_forwarded = Some []"
  by (simp add: spec_resolve_def call_empty_forwarded_def strip_def)

section \<open>The claims\<close>

subsection \<open>C1: uniqueness under sequential access\<close>

text \<open>
  Claim C1. After any sequence of track calls run one after the other on the empty
  store, the store holds a click log with exactly as many records as the calls have
  distinct resolved addresses, no two records with the same address, one record for
  every address, and each record belongs to the first call that resolved to its
  address: it holds that address, the timestamp of the host clock at that call and the
  user agent of that call (\<^verbatim>\<open>Unknown\<close> when the call has none). A call whose resolved
  address a stored record already carries leaves the files as they are.
\<close>

theorem sequential_tracking:
  "(\<exists>cs. stored_clicks (snd (track_all empty_store rqs)) = Some cs \<and>
      length cs = card (get_client_ip ` set rqs) \<and>
      distinct (map (\<lambda>c. py_getitem c ''ip'') cs) \<and>
      (\<forall>rq \<in> set rqs. \<exists>c \<in> set cs. py_getitem c ''ip'' = Inr (py_str (get_client_ip rq))) \<and>
      (\<forall>c \<in> set cs. \<exists>i<length rqs.
         (\<forall>j<i. get_client_ip (rqs ! j) \<noteq> get_client_ip (rqs ! i)) \<and>
         c = JObj [(''ip'', py_str (get_client_ip (rqs ! i))),
                   (''timestamp'', JStr (isoformat (local_time (host_clock (rqs ! i))))),
                   (''user_agent'',
                    JStr (case headers (rqs ! i) ''User-Agent'' of
                            None \<Rightarrow> ''Unknown'' | Some ua \<Rightarrow> ua))])) \<and>
   (\<forall>fs rq cs. stored_clicks fs = Some cs \<and>
      (\<exists>c \<in> set cs. py_getitem c ''ip'' = Inr (py_str (get_client_ip rq))) \<longrightarrow>
      snd (track_click fs rq) = fs)"
proof (intro conjI exI allI impI)
  let ?qs = "first_calls [] rqs"
  let ?cs = "map click_record ?qs"
  show "stored_clicks (snd (track_all empty_store rqs)) = Some ?cs"
    by (rule stored_clicks_track_all)
  have "length ?qs = length (map get_client_ip ?qs)" by simp
  also have "\<dots> = card (set (map get_client_ip ?qs))"
    by (rule distinct_card[symmetric]) (rule first_calls_distinct)
  also have "\<dots> = card (get_client_ip ` set rqs)"
    using first_calls_ips[of "[]" rqs] by simp
  finally show "length ?cs = card (get_client_ip ` set rqs)" by simp
  have e: "map (\<lambda>c. py_getitem c ''ip'') ?cs
             = map (\<lambda>a. Inr (py_str a) :: fault + json) (map get_client_ip ?qs)"
    by simp
  have d: "distinct (map (\<lambda>a. Inr (py_str a) :: fault + json) (map get_client_ip ?qs))"
    using first_calls_distinct[of "[]" rqs] by (subst distinct_map) (auto intro!: inj_onI)
  show "distinct (map (\<lambda>c. py_getitem c ''ip'') ?cs)" unfolding e by (rule d)
  show "\<forall>rq \<in> set rqs. \<exists>c \<in> set ?cs. py_getitem c ''ip'' = Inr (py_str (get_client_ip rq))"
  proof
    fix rq assume "rq \<in> set rqs"
    then have "get_client_ip rq \<in> get_client_ip ` set ?qs" by (simp add: first_calls_ips)
    then obtain q where "q \<in> set ?qs" "get_client_ip q = get_client_ip rq" by auto
    then show "\<exists>c \<in> set ?cs. py_getitem c ''ip'' = Inr (py_str (get_client_ip rq))"
      by (intro bexI[of _ "click_record q"]) simp_all
  qed
  show "\<forall>c \<in> set ?cs. \<exists>i<length rqs.
         (\<forall>j<i. get_client_ip (rqs ! j) \<noteq> get_client_ip (rqs ! i)) \<and>
         c = JObj [(''ip'', py_str (get_client_ip (rqs ! i))),
                   (''timestamp'', JStr (isoformat (local_time (host_clock (rqs ! i))))),
                   (''user_agent'',
                    JStr (case headers (rqs ! i) ''User-Agent'' of
                            None \<Rightarrow> ''Unknown'' | Some ua \<Rightarrow> ua))]"
  proof
    fix c assume "c \<in> set ?cs"
    then obtain q where q: "q \<in> set ?qs" and c: "c = click_record q" by auto
    from first_calls_first[OF q] obtain i where i: "i < length rqs" "q = rqs ! i"
      and before: "\<forall>j<i. get_client_ip (rqs ! j) \<noteq> get_client_ip (rqs ! i)"
      by blast
    from c i(2)
    have "c = JObj [(''ip'', py_str (get_client_ip (rqs ! i))),
                   (''timestamp'', JStr (isoformat (local_time (host_clock (rqs ! i))))),
                   (''user_agent'',
                    JStr (case headers (rqs ! i) ''User-Agent'' of
                            None \<Rightarrow> ''Unknown'' | Some ua \<Rightarrow> ua))]"
      by (simp add: click_record_def datetime_now_def)
    with i(1) before
    show "\<exists>i<length rqs.
         (\<forall>j<i. get_client_ip (rqs ! j) \<noteq> get_client_ip (rqs ! i)) \<and>
         c = JObj [(''ip'', py_str (get_client_ip (rqs ! i))),
                   (''timestamp'', JStr (isoformat (local_time (host_clock (rqs ! i))))),
                   (''user_agent'',
                    JStr (case headers (rqs ! i) ''User-Agent'' of
                            None \<Rightarrow> ''Unknown'' | Some ua \<Rightarrow> ua))]"
      by blast
  qed
next
  fix fs rq cs
  assume "stored_clicks fs = Some cs \<and>
      (\<exists>c \<in> set cs. py_getitem c ''ip'' = Inr (py_str (get_client_ip rq)))"
  then show "snd (track_click fs rq) = fs" using track_click_recorded by blast
qed

text \<open>
  The scenario of the specification, with one more visitor: a first call from 10.0.0.1
  with user agent curl/8.0 at 12:00:05, a call with the real address 9.9.9.9 and no user
  agent at 12:30, and a second call from 10.0.0.1 with another user agent at 12:30. The
  log keeps the first call's timestamp and user agent for 10.0.0.1.
\<close>

theorem sequential_tracking_witness:
  "stored_clicks (snd (track_all empty_store [call_curl, call_real_ip, call_curl_again]))
     = Some [JObj [(''ip'', JStr ''10.0.0.1''),
                   (''timestamp'', JStr ''2024-01-02T12:00:05''),
                   (''user_agent'', JStr ''curl/8.0'')],
             JObj [(''ip'', JStr ''9.9.9.9''),
                   (''timestamp'', JStr ''2024-01-02T12:30:00.000250''),
                   (''user_agent'', JStr ''Unknown'')]] \<and>
   card (get_client_ip ` set [call_curl, call_real_ip, call_curl_again]) = 2 \<and>
   stored_clicks (snd (track_click empty_store call_curl))
     = Some [JObj [(''ip'', JStr ''10.0.0.1''),
                   (''timestamp'', JStr ''2024-01-02T12:00:05''),
                   (''user_agent'', JStr ''curl/8.0'')]] \<and>
   snd (track_click (snd (track_click empty_store call_curl)) call_curl_again)
     = snd (track_click empty_store call_curl)"
proof -
  let ?rqs = "[call_curl, call_real_ip, call_curl_again]"
  let ?fs = "snd (track_click empty_store call_curl)"
  have a: "stored_clicks (snd (track_all empty_store ?rqs))
             = Some [click_record call_curl, click_record call_real_ip]"
    unfolding stored_clicks_track_all by (simp add: example_ips)
  have b: "stored_clicks ?fs = Some [click_record call_curl]"
    by (simp add: track_click_empty_store)
  have c: "py_getitem (click_record call_curl) ''ip''
             = Inr (py_str (get_client_ip call_curl_again))"
    by (simp add: example_ips)
  from sequential_tracking[of ?rqs] a
  have "length [click_record call_curl, click_record call_real_ip]
          = card (get_client_ip ` set ?rqs)"
    by auto
  moreover from sequential_tracking[of ?rqs] b c
  have "snd (track_click ?fs call_curl_again) = ?fs"
    by (metis list.set_intros(1))
  ultimately show ?thesis using a b by (simp add: example_records full_record_def)
qed

subsection \<open>C2: the address resolver\<close>

text \<open>
  Claim C2, as the code has it. The resolver returns the text of the
  \<^verbatim>\<open>X-Forwarded-For\<close> header before its first comma, stripped, when that header is
  present and not empty; otherwise the \<^verbatim>\<open>X-Real-IP\<close> header as it is, when that one
  is present and not empty; otherwise the peer address.
\<close>

theorem get_client_ip_precedence:
  "(headers rq ''X-Forwarded-For'' = Some v \<and> v \<noteq> [] \<longrightarrow>
      get_client_ip rq = Some (strip (takeWhile (\<lambda>c. c \<noteq> CHR '','') v))) \<and>
   (\<not> truthy (headers rq ''X-Forwarded-For'') \<and> headers rq ''X-Real-IP'' = Some w \<and> w \<noteq> [] \<longrightarrow>
      get_client_ip rq = Some w) \<and>
   (\<not> truthy (headers rq ''X-Forwarded-For'') \<and> \<not> truthy (headers rq ''X-Real-IP'') \<longrightarrow>
      get_client_ip rq = remote_addr rq)"
  by (simp add: get_client_ip_def truthy_def split_first)

text \<open>The three cases the specification lists.\<close>

theorem get_client_ip_precedence_witness:
  "headers call_forwarded ''X-Forwarded-For'' = Some ''1.2.3.4, 5.6.7.8'' \<and>
   headers call_forwarded ''X-Real-IP'' = Some ''9.9.9.9'' \<and>
   get_client_ip call_forwarded = Some ''1.2.3.4'' \<and>
   headers call_real_ip ''X-Forwarded-For'' = None \<and>
   headers call_real_ip ''X-Real-IP'' = Some ''9.9.9.9'' \<and>
   get_client_ip call_real_ip = Some ''9.9.9.9'' \<and>
   headers call_curl ''X-Forwarded-For'' = None \<and>
   headers call_curl ''X-Real-IP'' = None \<and>
   get_client_ip call_curl = remote_addr call_curl \<and>
   remote_addr call_curl = Some ''10.0.0.1''"
proof -
  have f: "headers call_forwarded ''X-Forwarded-For'' = Some ''1.2.3.4, 5.6.7.8''"
          "headers call_forwarded ''X-Real-IP'' = Some ''9.9.9.9''"
    by (simp_all add: call_forwarded_def)
  have r: "headers call_real_ip ''X-Forwarded-For'' = None"
          "headers call_real_ip ''X-Real-IP'' = Some ''9.9.9.9''"
    by (simp_all add: call_real_ip_def)
  have d: "headers call_curl ''X-Forwarded-For'' = None"
          "headers call_curl ''X-Real-IP'' = None"
          "remote_addr call_curl = Some ''10.0.0.1''"
    by (simp_all add: call_curl_def)
  have s: "strip (takeWhile (\<lambda>c. c \<noteq> CHR '','') ''1.2.3.4, 5.6.7.8'') = ''1.2.3.4''"
    by (simp add: strip_def isspace_def)
  from get_client_ip_precedence[of call_forwarded "''1.2.3.4, 5.6.7.8''"] f s
  have 1: "get_client_ip call_forwarded = Some ''1.2.3.4''" by simp
  from get_client_ip_precedence[of call_real_ip _ "''9.9.9.9''"] r
  have 2: "get_client_ip call_real_ip = Some ''9.9.9.9''" by (simp add: truthy_def)
  from get_client_ip_precedence[of call_curl] d
  have 3: "get_client_ip call_curl = remote_addr call_curl" by (simp add: truthy_def)
  show ?thesis using f r d 1 2 3 by simp
qed

text \<open>
  As the claim words it, a header that is present decides, also when its value is
  empty. With an empty \<^verbatim>\<open>X-Forwarded-For\<close> the code goes on to \<^verbatim>\<open>X-Real-IP\<close>, where
  the claim's resolver returns the empty string.
\<close>

theorem empty_forwarded_counterexample:
  "headers call_empty_forwarded ''X-Forwarded-For'' = Some [] \<and>
   get_client_ip call_empty_forwarded = Some ''9.9.9.9'' \<and>
   spec_resolve call_empty_forwarded = Some [] \<and>
   get_client_ip call_empty_forwarded \<noteq> spec_resolve call_empty_forwarded"
  by (simp add: example_ips spec_resolve_empty) (simp add: call_empty_forwarded_def)

subsection \<open>C3: loading a missing or corrupt store\<close>

text \<open>
  Claim C3, evaluated. A missing file, a file that cannot be opened or read, and a file
  whose text is not JSON all load as the empty log. A file whose bytes are not text in
  the encoding it is opened with does not: reading it raises \<^verbatim>\<open>UnicodeDecodeError\<close>,
  which the \<^verbatim>\<open>except\<close> clause of \<^verbatim>\<open>load_data\<close> does not name, so the error reaches
  the caller.
\<close>

theorem load_data_undecodable:
  "load_data \<lparr>data_file = NoFile, csv_file = csv, data_writable = dw, csv_writable = cw\<rparr>
     = Inr (JObj [(''clicks'', JArr [])]) \<and>
   load_data \<lparr>data_file = IOFailure, csv_file = csv, data_writable = dw, csv_writable = cw\<rparr>
     = Inr (JObj [(''clicks'', JArr [])]) \<and>
   load_data \<lparr>data_file = BadJson, csv_file = csv, data_writable = dw, csv_writable = cw\<rparr>
     = Inr (JObj [(''clicks'', JArr [])]) \<and>
   load_data undecodable_store = Inl UnicodeDecodeError \<and>
   track_click undecodable_store rq = (Inl UnicodeDecodeError, undecodable_store)"
  by (simp add: load_data_def empty_log_def undecodable_store_def track_click_def)

subsection \<open>C4: the CSV file after a save\<close>

text \<open>
  Claim C4, as the code has it. After a save that raised nothing, the JSON file holds
  the saved document and the CSV file holds the header row followed by one row per
  record of the saved log, in the same order; row \<open>i\<close> holds the \<^verbatim>\<open>ip\<close> and
  \<^verbatim>\<open>timestamp\<close> fields of record \<open>i\<close>, and its \<^verbatim>\<open>user_agent\<close> field when the record
  has one, the string \<^verbatim>\<open>N/A\<close> when it has none.
\<close>

theorem save_data_csv:
  assumes "save_data fs d = (None, fs')"
  shows "data_file fs' = Doc d \<and>
         (\<exists>cl cs rows. py_getitem d ''clicks'' = Inr cl \<and> py_iter cl = Inr cs \<and>
            csv_file fs' = Some (csv_header # rows) \<and> length rows = length cs \<and>
            (\<forall>i<length cs. \<exists>ip ts.
               py_getitem (cs ! i) ''ip'' = Inr ip \<and>
               py_getitem (cs ! i) ''timestamp'' = Inr ts \<and>
               rows ! i = [ip, ts, case py_getitem (cs ! i) ''user_agent'' of
                                     Inl e \<Rightarrow> JStr ''N/A'' | Inr ua \<Rightarrow> ua]))"
proof -
  from assms obtain cl cs rows' where cl: "py_getitem d ''clicks'' = Inr cl"
    and cs: "py_iter cl = Inr cs"
    and w: "write_rows cs [csv_header] = (None, rows')"
    and fs': "fs' = fs\<lparr>data_file := Doc d, csv_file := Some rows'\<rparr>"
    by (auto simp: save_data_def Let_def split: if_splits sum.splits prod.splits)
  from write_rows_rows[OF w] obtain rows where rows: "rows' = csv_header # rows"
    and all: "list_all2 (\<lambda>c r. click_row c = Inr r) cs rows"
    by auto
  from all have len: "length rows = length cs" by (simp add: list_all2_lengthD)
  have "\<exists>ip ts. py_getitem (cs ! i) ''ip'' = Inr ip \<and>
               py_getitem (cs ! i) ''timestamp'' = Inr ts \<and>
               rows ! i = [ip, ts, case py_getitem (cs ! i) ''user_agent'' of
                                     Inl e \<Rightarrow> JStr ''N/A'' | Inr ua \<Rightarrow> ua]"
    if "i < length cs" for i
  proof -
    from all that have "click_row (cs ! i) = Inr (rows ! i)" by (rule list_all2_nthD)
    then show ?thesis by (rule click_row_cells)
  qed
  with cl cs rows len fs' show ?thesis by auto
qed

theorem save_data_csv_witness:
  "fst (save_data empty_store (JObj [(''clicks'', JArr [full_record])])) = None \<and>
   data_file (snd (save_data empty_store (JObj [(''clicks'', JArr [full_record])])))
     = Doc (JObj [(''clicks'', JArr [full_record])]) \<and>
   csv_file (snd (save_data empty_store (JObj [(''clicks'', JArr [full_record])])))
     = Some [[JStr ''IP Address'', JStr ''Timestamp'', JStr ''User Agent''],
             [JStr ''10.0.0.1'', JStr ''2024-01-02T12:00:05'', JStr ''curl/8.0'']]"
proof -
  let ?d = "JObj [(''clicks'', JArr [full_record])]"
  let ?fs = "\<lparr>data_file = Doc ?d,
              csv_file = Some [csv_header,
                [JStr ''10.0.0.1'', JStr ''2024-01-02T12:00:05'', JStr ''curl/8.0'']],
              data_writable = True, csv_writable = True\<rparr>"
  have e: "save_data empty_store ?d = (None, ?fs)"
    by (simp add: save_data_def click_row_def full_record_def empty_store_def)
  from save_data_csv[OF e] have "data_file ?fs = Doc ?d" by blast
  with e show ?thesis by (simp add: csv_header_def)
qed

text \<open>
  A log whose only record has no \<^verbatim>\<open>user_agent\<close> field is saved without a fault, and
  the third cell of its row is \<^verbatim>\<open>N/A\<close>, which is no field of the record.
\<close>

theorem save_data_csv_counterexample:
  "save_data empty_store (JObj [(''clicks'', JArr [partial_record])]) =
     (None,
      \<lparr>data_file = Doc (JObj [(''clicks'', JArr [partial_record])]),
       csv_file = Some [[JStr ''IP Address'', JStr ''Timestamp'', JStr ''User Agent''],
                        [JStr ''1.2.3.4'', JStr ''2024-01-02T12:00:05'', JStr ''N/A'']],
       data_writable = True, csv_writable = True\<rparr>) \<and>
   py_getitem partial_record ''user_agent'' = Inl (KeyError ''user_agent'')"
  by (simp add: save_data_def click_row_def partial_record_def empty_store_def csv_header_def)

subsection \<open>C5: the fields of an appended record\<close>

text \<open>
  Claim C5, as the code has it. Every record that a track call appends to the log
  carries the resolved address, the ISO-8601 text of the host clock's local time at the
  call (\<^verbatim>\<open>datetime.now()\<close>, with no zone), and the \<^verbatim>\<open>User-Agent\<close> header of the
  request, the string \<^verbatim>\<open>Unknown\<close> when the request has none.
\<close>

theorem appended_record_fields:
  assumes "stored_clicks fs = Some cs"
    and "stored_clicks (snd (track_click fs rq)) = Some (cs @ [c])"
  shows "c = JObj [(''ip'', py_str (get_client_ip rq)),
                   (''timestamp'', JStr (isoformat (local_time (host_clock rq)))),
                   (''user_agent'',
                    JStr (case headers rq ''User-Agent'' of
                            None \<Rightarrow> ''Unknown'' | Some ua \<Rightarrow> ua))]"
proof -
  from track_click_files[OF assms(1), of rq] assms
  have "c = click_record rq" by auto
  then show ?thesis by (simp add: click_record_def datetime_now_def)
qed

theorem appended_record_fields_witness:
  "stored_clicks empty_store = Some [] \<and>
   stored_clicks (snd (track_click empty_store call_curl)) = Some ([] @ [click_record call_curl]) \<and>
   click_record call_curl =
     JObj [(''ip'', JStr ''10.0.0.1''),
           (''timestamp'', JStr ''2024-01-02T12:00:05''),
           (''user_agent'', JStr ''curl/8.0'')] \<and>
   stored_clicks (snd (track_click empty_store call_forwarded))
     = Some ([] @ [click_record call_forwarded]) \<and>
   click_record call_forwarded =
     JObj [(''ip'', JStr ''1.2.3.4''),
           (''timestamp'', JStr ''2024-01-02T12:00:05''),
           (''user_agent'', JStr ''Unknown'')]"
proof -
  have a: "stored_clicks empty_store = Some []" by simp
  have b: "stored_clicks (snd (track_click empty_store call_curl))
             = Some ([] @ [click_record call_curl])"
    by (simp add: track_click_empty_store)
  have c: "stored_clicks (snd (track_click empty_store call_forwarded))
             = Some ([] @ [click_record call_forwarded])"
    by (simp add: track_click_empty_store)
  from appended_record_fields[OF a b] appended_record_fields[OF a c]
  show ?thesis
    using a b c by (simp add: example_ips example_times example_fields py_str_def)
qed

text \<open>
  On a host two hours ahead of UTC the stored timestamp is the local time, 12:00:05,
  where the UTC time of the call is 10:00:05.
\<close>

theorem timestamp_utc_counterexample:
  "stored_clicks (snd (track_click empty_store call_curl))
     = Some [JObj [(''ip'', JStr ''10.0.0.1''),
                   (''timestamp'', JStr ''2024-01-02T12:00:05''),
                   (''user_agent'', JStr ''curl/8.0'')]] \<and>
   isoformat (utc_time (host_clock call_curl)) = ''2024-01-02T10:00:05'' \<and>
   ''2024-01-02T12:00:05'' \<noteq> isoformat (utc_time (host_clock call_curl))"
  by (simp add: track_click_empty_store example_records example_fields example_times
        full_record_def)

subsection \<open>C6: the redirect\<close>




subsection \<open>C7: the JSON statistics\<close>




subsection \<open>C8: the log only grows at its end\<close>

text \<open>
  Claim C8. A track call that finds a click log in the store leaves the files
  unchanged or leaves that log with exactly one record appended at its end, so the log
  found is a prefix of the log left; a call that finds no click log leaves the files
  unchanged.
\<close>

theorem track_click_appends:
  "(stored_clicks fs = None \<longrightarrow> snd (track_click fs rq) = fs) \<and>
   (\<forall>cs. stored_clicks fs = Some cs \<longrightarrow>
      (snd (track_click fs rq) = fs \<or>
       (\<exists>c. stored_clicks (snd (track_click fs rq)) = Some (cs @ [c]))) \<and>
      (\<exists>cs'. stored_clicks (snd (track_click fs rq)) = Some cs' \<and> prefix cs cs'))"
proof (intro conjI allI impI)
  assume "stored_clicks fs = None"
  then obtain e where "track_click fs rq = (Inl e, fs)" using track_click_no_log by blast
  then show "snd (track_click fs rq) = fs" by simp
next
  fix cs assume sc: "stored_clicks fs = Some cs"
  from track_click_files[OF sc, of rq]
  show "snd (track_click fs rq) = fs \<or>
       (\<exists>c. stored_clicks (snd (track_click fs rq)) = Some (cs @ [c]))" by blast
  from track_click_files[OF sc, of rq]
  show "\<exists>cs'. stored_clicks (snd (track_click fs rq)) = Some cs' \<and> prefix cs cs'"
    using sc by auto
qed

theorem track_click_appends_witness:
  "stored_clicks undecodable_store = None \<and>
   snd (track_click undecodable_store call_curl) = undecodable_store \<and>
   stored_clicks empty_store = Some [] \<and>
   stored_clicks (snd (track_click empty_store call_curl)) = Some ([] @ [full_record]) \<and>
   stored_clicks (snd (track_click (snd (track_click empty_store call_curl)) call_forwarded))
     = Some ([full_record] @ [click_record call_forwarded]) \<and>
   prefix [full_record] ([full_record] @ [click_record call_forwarded]) \<and>
   snd (track_click (snd (track_click empty_store call_curl)) call_curl_again)
     = snd (track_click empty_store call_curl)"
proof -
  let ?fs = "snd (track_click empty_store call_curl)"
  have a: "stored_clicks undecodable_store = None"
    by (simp add: stored_clicks_def load_data_def undecodable_store_def)
  have b: "stored_clicks empty_store = Some []" by simp
  have c: "stored_clicks ?fs = Some ([] @ [full_record])"
    by (simp add: track_click_empty_store example_records)
  have d: "stored_clicks (snd (track_click ?fs call_forwarded))
             = Some ([full_record] @ [click_record call_forwarded])"
    by (simp add: track_click_empty_store track_click_log_files example_ips example_records)
  have e: "snd (track_click ?fs call_curl_again) = ?fs"
    by (simp add: track_click_empty_store track_click_log_files example_ips)
  from track_click_appends[of undecodable_store call_curl] a
  have "snd (track_click undecodable_store call_curl) = undecodable_store" by blast
  with a b c d e show ?thesis by simp
qed

subsection \<open>C9: the views only read\<close>

text \<open>
  Claim C9. The HTML statistics view, the JSON statistics view and the home view leave
  the JSON file and the CSV file as they found them, in every state of the files and
  whether or not the view faults.
\<close>

theorem views_leave_files:
  "snd (show_stats fs) = fs \<and> snd (api_stats fs) = fs \<and> snd (home fs) = fs"
  by (simp add: show_stats_def api_stats_def home_def Let_def split: sum.splits)

theorem views_leave_files_witness:
  "snd (show_stats array_store) = array_store \<and>
   snd (api_stats text_clicks_store) = text_clicks_store \<and>
   snd (home empty_store) = empty_store"
  using views_leave_files[of array_store] views_leave_files[of text_clicks_store]
    views_leave_files[of empty_store]
  by simp

subsection \<open>C10: no validation of the loaded document\<close>

text \<open>
  Claim C10, as the code has it. When the file holds a JSON document that
  \<^verbatim>\<open>json.load\<close> can read and that is not a dict with a list under \<^verbatim>\<open>'clicks'\<close>,
  \<^verbatim>\<open>load_data\<close> returns that document as it is, and a track call faults and leaves the
  files unchanged. The JSON statistics view faults as well, unless \<^verbatim>\<open>'clicks'\<close> is a
  string or a dict: then it returns a payload with the length of that value as
  \<^verbatim>\<open>total_unique_visitors\<close>. The HTML statistics view faults as well, unless
  \<^verbatim>\<open>'clicks'\<close> is an empty string or an empty dict: then it shows the page for no
  visitors. A document beyond the limits of \<^verbatim>\<open>json.load\<close> (nesting depth, digits of
  an integer) is not returned: loading it raises, and so does every handler that loads.
\<close>

theorem no_schema_validation:
  "(data_file fs = Doc j \<and> \<not> has_clicks_list j \<longrightarrow>
      load_data fs = Inr j \<and>
      (\<exists>e. track_click fs rq = (Inl e, fs)) \<and>
      (clicks_sized j \<longrightarrow>
         (\<exists>cl n. py_getitem j ''clicks'' = Inr cl \<and> py_len cl = Inr n \<and>
            api_stats fs =
              (Inr (Json (JObj [(''total_unique_visitors'', JInt (int n)),
                                (''clicks'', cl),
                                (''target_url'', JStr TARGET_URL)])), fs) \<and>
            (n = 0 \<longrightarrow>
               show_stats fs =
                 (Inr (StatsHtml [(''total_unique'', JInt 0),
                                  (''clicks'', cl),
                                  (''target_url'', JStr TARGET_URL),
                                  (''data_file'', JStr DATA_FILE),
                                  (''csv_file'', JStr CSV_FILE)] None), fs)) \<and>
            (n \<noteq> 0 \<longrightarrow> (\<exists>e. show_stats fs = (Inl e, fs))))) \<and>
      (\<not> clicks_sized j \<longrightarrow>
         (\<exists>e. api_stats fs = (Inl e, fs) \<and> show_stats fs = (Inl e, fs)))) \<and>
   (data_file fs = HugeInteger \<or> data_file fs = TooDeep \<longrightarrow>
      (\<exists>e. load_data fs = Inl e \<and> track_click fs rq = (Inl e, fs) \<and>
           api_stats fs = (Inl e, fs) \<and> show_stats fs = (Inl e, fs)))"
proof -
  have limits: "data_file fs = HugeInteger \<or> data_file fs = TooDeep \<longrightarrow>
      (\<exists>e. load_data fs = Inl e \<and> track_click fs rq = (Inl e, fs) \<and>
           api_stats fs = (Inl e, fs) \<and> show_stats fs = (Inl e, fs))"
    by (auto simp: load_data_def track_click_def api_stats_def show_stats_def)
  have doc: "(data_file fs = Doc j \<and> \<not> has_clicks_list j \<longrightarrow>
      load_data fs = Inr j \<and>
      (\<exists>e. track_click fs rq = (Inl e, fs)) \<and>
      (clicks_sized j \<longrightarrow>
         (\<exists>cl n. py_getitem j ''clicks'' = Inr cl \<and> py_len cl = Inr n \<and>
            api_stats fs =
              (Inr (Json (JObj [(''total_unique_visitors'', JInt (int n)),
                                (''clicks'', cl),
                                (''target_url'', JStr TARGET_URL)])), fs) \<and>
            (n = 0 \<longrightarrow>
               show_stats fs =
                 (Inr (StatsHtml [(''total_unique'', JInt 0),
                                  (''clicks'', cl),
                                  (''target_url'', JStr TARGET_URL),
                                  (''data_file'', JStr DATA_FILE),
                                  (''csv_file'', JStr CSV_FILE)] None), fs)) \<and>
            (n \<noteq> 0 \<longrightarrow> (\<exists>e. show_stats fs = (Inl e, fs))))) \<and>
      (\<not> clicks_sized j \<longrightarrow>
         (\<exists>e. api_stats fs = (Inl e, fs) \<and> show_stats fs = (Inl e, fs))))"
  proof (rule impI)
    assume a: "data_file fs = Doc j \<and> \<not> has_clicks_list j"
  then have ld: "load_data fs = Inr j" by (simp add: load_data_Doc)
  have "stored_clicks fs = None"
    using a ld
    by (auto simp: stored_clicks_def has_clicks_list_def split: json.splits option.splits)
  then have tr: "\<exists>e. track_click fs rq = (Inl e, fs)" by (rule track_click_no_log)
  have views: "(clicks_sized j \<longrightarrow>
         (\<exists>cl n. py_getitem j ''clicks'' = Inr cl \<and> py_len cl = Inr n \<and>
            api_stats fs =
              (Inr (Json (JObj [(''total_unique_visitors'', JInt (int n)),
                                (''clicks'', cl),
                                (''target_url'', JStr TARGET_URL)])), fs) \<and>
            (n = 0 \<longrightarrow>
               show_stats fs =
                 (Inr (StatsHtml [(''total_unique'', JInt 0),
                                  (''clicks'', cl),
                                  (''target_url'', JStr TARGET_URL),
                                  (''data_file'', JStr DATA_FILE),
                                  (''csv_file'', JStr CSV_FILE)] None), fs)) \<and>
            (n \<noteq> 0 \<longrightarrow> (\<exists>e. show_stats fs = (Inl e, fs))))) \<and>
      (\<not> clicks_sized j \<longrightarrow>
         (\<exists>e. api_stats fs = (Inl e, fs) \<and> show_stats fs = (Inl e, fs)))"
  proof (cases j)
    case (JObj kvs)
    show ?thesis
    proof (cases "map_of kvs ''clicks''")
      case None
      with JObj show ?thesis
        by (simp add: api_stats_def show_stats_def ld clicks_sized_def)
    next
      case (Some cl)
      show ?thesis
      proof (cases cl)
        case (JStr s)
        with JObj Some show ?thesis
          by (cases s)
             (simp_all add: api_stats_def show_stats_def ld clicks_sized_def first_visit_def
                jinja_attr_def)
      next
        case inner: (JObj ws)
        with JObj Some show ?thesis
          by (cases ws)
             (simp_all add: api_stats_def show_stats_def ld clicks_sized_def first_visit_def
                jinja_attr_def)
      qed (use JObj Some a in
            \<open>simp_all add: api_stats_def show_stats_def ld clicks_sized_def has_clicks_list_def\<close>)
    qed
  qed (simp_all add: api_stats_def show_stats_def ld clicks_sized_def)
    from ld tr views show "load_data fs = Inr j \<and>
      (\<exists>e. track_click fs rq = (Inl e, fs)) \<and>
      (clicks_sized j \<longrightarrow>
         (\<exists>cl n. py_getitem j ''clicks'' = Inr cl \<and> py_len cl = Inr n \<and>
            api_stats fs =
              (Inr (Json (JObj [(''total_unique_visitors'', JInt (int n)),
                                (''clicks'', cl),
                                (''target_url'', JStr TARGET_URL)])), fs) \<and>
            (n = 0 \<longrightarrow>
               show_stats fs =
                 (Inr (StatsHtml [(''total_unique'', JInt 0),
                                  (''clicks'', cl),
                                  (''target_url'', JStr TARGET_URL),
                                  (''data_file'', JStr DATA_FILE),
                                  (''csv_file'', JStr CSV_FILE)] None), fs)) \<and>
            (n \<noteq> 0 \<longrightarrow> (\<exists>e. show_stats fs = (Inl e, fs))))) \<and>
      (\<not> clicks_sized j \<longrightarrow>
         (\<exists>e. api_stats fs = (Inl e, fs) \<and> show_stats fs = (Inl e, fs)))"
      by (simp only: simp_thms)
  qed
  from doc limits show ?thesis by (rule conjI)
qed

theorem no_schema_validation_witness:
  "data_file array_store = Doc (JArr []) \<and>
   \<not> has_clicks_list (JArr []) \<and>
   \<not> clicks_sized (JArr []) \<and>
   load_data array_store = Inr (JArr []) \<and>
   track_click array_store call_curl = (Inl TypeError, array_store) \<and>
   api_stats array_store = (Inl TypeError, array_store) \<and>
   show_stats array_store = (Inl TypeError, array_store) \<and>
   data_file text_clicks_store = Doc (JObj [(''clicks'', JStr ''abc'')]) \<and>
   \<not> has_clicks_list (JObj [(''clicks'', JStr ''abc'')]) \<and>
   clicks_sized (JObj [(''clicks'', JStr ''abc'')]) \<and>
   load_data text_clicks_store = Inr (JObj [(''clicks'', JStr ''abc'')]) \<and>
   track_click text_clicks_store call_curl = (Inl TypeError, text_clicks_store) \<and>
   show_stats text_clicks_store = (Inl RenderError, text_clicks_store) \<and>
   data_file (empty_store\<lparr>data_file := TooDeep\<rparr>) = TooDeep \<and>
   load_data (empty_store\<lparr>data_file := TooDeep\<rparr>) = Inl RecursionError \<and>
   api_stats (empty_store\<lparr>data_file := TooDeep\<rparr>)
     = (Inl RecursionError, empty_store\<lparr>data_file := TooDeep\<rparr>)"
proof -
  have a: "data_file array_store = Doc (JArr []) \<and> \<not> has_clicks_list (JArr [])"
    by (simp add: array_store_def has_clicks_list_def)
  have t: "data_file text_clicks_store = Doc (JObj [(''clicks'', JStr ''abc'')]) \<and>
           \<not> has_clicks_list (JObj [(''clicks'', JStr ''abc'')])"
    by (simp add: text_clicks_store_def has_clicks_list_def)
  have d: "data_file (empty_store\<lparr>data_file := TooDeep\<rparr>) = TooDeep" by simp
  from no_schema_validation[of array_store "JArr []" call_curl] a
  have 1: "load_data array_store = Inr (JArr [])" by blast
  from no_schema_validation[of text_clicks_store "JObj [(''clicks'', JStr ''abc'')]" call_curl] t
  have 2: "load_data text_clicks_store = Inr (JObj [(''clicks'', JStr ''abc'')])" by blast
  from no_schema_validation[of "empty_store\<lparr>data_file := TooDeep\<rparr>"] d
  have 3: "\<exists>e. load_data (empty_store\<lparr>data_file := TooDeep\<rparr>) = Inl e \<and>
              api_stats (empty_store\<lparr>data_file := TooDeep\<rparr>)
                = (Inl e, empty_store\<lparr>data_file := TooDeep\<rparr>)" by blast
  have 4: "load_data (empty_store\<lparr>data_file := TooDeep\<rparr>) = Inl RecursionError"
    by (simp add: load_data_def)
  from 3 4 have 5: "api_stats (empty_store\<lparr>data_file := TooDeep\<rparr>)
                = (Inl RecursionError, empty_store\<lparr>data_file := TooDeep\<rparr>)" by auto
  show ?thesis
    using a t 1 2 4 5
    by (simp add: track_click_def api_stats_def show_stats_def clicks_sized_def
          first_visit_def jinja_attr_def)
qed

text \<open>
  Two documents that are no dict with a list of clicks, on which not both statistics
  views fault: with the string \<^verbatim>\<open>abc\<close> under \<^verbatim>\<open>'clicks'\<close> the JSON view reports its
  length, and with the empty string there the HTML view shows the page for no visitors.
\<close>

theorem text_clicks_counterexample:
  "data_file text_clicks_store = Doc (JObj [(''clicks'', JStr ''abc'')]) \<and>
   \<not> has_clicks_list (JObj [(''clicks'', JStr ''abc'')]) \<and>
   api_stats text_clicks_store =
     (Inr (Json (JObj [(''total_unique_visitors'', JInt 3),
                       (''clicks'', JStr ''abc''),
                       (''target_url'', JStr TARGET_URL)])), text_clicks_store) \<and>
   data_file empty_text_store = Doc (JObj [(''clicks'', JStr [])]) \<and>
   \<not> has_clicks_list (JObj [(''clicks'', JStr [])]) \<and>
   show_stats empty_text_store =
     (Inr (StatsHtml [(''total_unique'', JInt 0),
                      (''clicks'', JStr []),
                      (''target_url'', JStr TARGET_URL),
                      (''data_file'', JStr DATA_FILE),
                      (''csv_file'', JStr CSV_FILE)] None), empty_text_store)"
  by (simp add: text_clicks_store_def empty_text_store_def has_clicks_list_def api_stats_def
        show_stats_def load_data_def)

end
